theory Spec2Isabelle
  imports Main
begin

section \<open>Values and errors\<close>

text \<open>
  The scripts \<^verbatim>\<open>src/src/basket-swap.js\<close> and \<^verbatim>\<open>src/src/single-swap.js\<close> talk to
  three collaborators: the 31Third HTTP API (whose JSON answer is an input here), an
  Ethereum node reached through an ethers v5 provider, and a signing wallet. A thrown
  JavaScript error is a value of \<open>js_error\<close>; both kinds carry the \<open>message\<close> the
  catch blocks inspect.
\<close>

type_synonym address = string

datatype js_error = Error (message: string) | TypeError (message: string)

text \<open>
  A field of the API's JSON answer that the code tests with \<open>!x\<close> or \<open>x ? a : b\<close>:
  absent, null, a number or a string. Numbers are the integers (a gas price or an
  amount in base units).
\<close>

datatype json = JUndefined | JNull | JNum int | JStr string

text \<open>JavaScript truthiness on those values: \<open>undefined\<close>, \<open>null\<close>, \<open>0\<close> and \<open>""\<close> are falsy.\<close>

fun truthy :: "json \<Rightarrow> bool" where
  "truthy JUndefined = False"
| "truthy JNull = False"
| "truthy (JNum n) = (n \<noteq> 0)"
| "truthy (JStr s) = (s \<noteq> [])"

text \<open>An address or call-data field: \<open>None\<close> when absent, otherwise the string.\<close>

fun truthy_str :: "string option \<Rightarrow> bool" where
  "truthy_str None = False"
| "truthy_str (Some s) = (s \<noteq> [])"

text \<open>\<open>String.prototype.includes\<close>: the argument occurs as a contiguous substring.\<close>

fun is_prefix :: "string \<Rightarrow> string \<Rightarrow> bool" where
  "is_prefix [] s = True"
| "is_prefix (c # cs) [] = False"
| "is_prefix (c # cs) (d # ds) = (c = d \<and> is_prefix cs ds)"

fun str_includes :: "string \<Rightarrow> string \<Rightarrow> bool" where
  "str_includes [] sub = (sub = [])"
| "str_includes (c # cs) sub = (is_prefix sub (c # cs) \<or> str_includes cs sub)"

text \<open>
  ethers' \<open>BigNumber\<close> is an arbitrary-precision integer. \<open>mul\<close> multiplies; \<open>div\<close>
  truncates towards zero (the divisor in both scripts is the literal 100).
\<close>

definition BigNumber_mul :: "int \<Rightarrow> int \<Rightarrow> int" where
  "BigNumber_mul a b = a * b"

definition BigNumber_div :: "int \<Rightarrow> int \<Rightarrow> int" where
  "BigNumber_div a b = sgn a * sgn b * (\<bar>a\<bar> div \<bar>b\<bar>)"

definition MaxUint256 :: int where
  "MaxUint256 = 2 ^ 256 - 1"

text \<open>
  \<open>ethers.BigNumber.from\<close> applied to a JSON field is library code outside the
  repository: it is a parameter, returning the integer or the error it throws. Applied
  to a decimal literal of the source (\<open>BigNumber.from("500000")\<close>) it is written as
  the integer the literal denotes.
\<close>

record ethers =
  BigNumber_from :: "json \<Rightarrow> js_error + int"

section \<open>Transactions, the node and the wallet\<close>

record transaction =
  to :: address
  data :: string
  "value" :: int
  gasLimit :: int
  gasPrice :: int
  nonce :: nat
  chainId :: nat

text \<open>The argument of \<open>provider.estimateGas\<close>.\<close>

record call_request =
  call_from :: address
  call_to :: address
  call_data :: string
  call_value :: int

record receipt =
  blockNumber :: nat
  gasUsed :: nat

text \<open>
  Every awaited call to the node or the wallet is recorded, in program order, as an
  event. \<open>EvApprove token spender amount gasLimit gasPrice\<close> is the ERC-20 approval
  transaction sent by \<open>tokenContract.approve\<close>; \<open>EvAllowance token owner spender\<close> is
  the \<open>allowance\<close> read; \<open>EvWait hash\<close> is \<open>wait(1)\<close> on a sent transaction.
\<close>

datatype event =
    EvAllowance address address address
  | EvGetGasPrice
  | EvApprove address address int int int
  | EvWait string
  | EvEstimateGas call_request
  | EvGetTransactionCount address
  | EvGetNetwork
  | EvSignTransaction transaction
  | EvSendTransaction string

text \<open>
  The node's answers, as functions of the request: the value returned, or the error
  thrown. \<open>sendTransaction\<close> and \<open>approve\<close> return the hash of the transaction sent.
\<close>

record provider =
  allowance :: "address \<Rightarrow> address \<Rightarrow> address \<Rightarrow> js_error + nat"
  approve :: "address \<Rightarrow> address \<Rightarrow> int \<Rightarrow> int \<Rightarrow> int \<Rightarrow> js_error + string"
  getGasPrice :: "js_error + nat"
  estimateGas :: "call_request \<Rightarrow> js_error + nat"
  getTransactionCount :: "address \<Rightarrow> js_error + nat"
  getNetwork :: "js_error + nat"
  sendTransaction :: "string \<Rightarrow> js_error + string"
  wait :: "string \<Rightarrow> js_error + receipt"

record wallet =
  address :: address
  signTransaction :: "transaction \<Rightarrow> js_error + string"

text \<open>
  An \<open>async\<close> computation: its outcome (\<open>Inl\<close> the error thrown) and the events
  it caused. \<open>and_then\<close> is \<open>await\<close> followed by the rest of the function: an error
  skips the rest.
\<close>

type_synonym 'a io = "(js_error + 'a) \<times> event list"

definition resolve :: "'a \<Rightarrow> 'a io" where
  "resolve x = (Inr x, [])"

definition reject :: "js_error \<Rightarrow> 'a io" where
  "reject e = (Inl e, [])"

definition lift :: "js_error + 'a \<Rightarrow> 'a io" where
  "lift r = (r, [])"

definition await :: "event \<Rightarrow> js_error + 'a \<Rightarrow> 'a io" where
  "await ev r = (r, [ev])"

definition and_then :: "'a io \<Rightarrow> ('a \<Rightarrow> 'b io) \<Rightarrow> 'b io" where
  "and_then m f =
     (case m of
        (Inl e, t) \<Rightarrow> (Inl e, t)
      | (Inr x, t) \<Rightarrow> (case f x of (r, t') \<Rightarrow> (r, t @ t')))"

section \<open>Allowances\<close>

text \<open>
  \<open>checkAndSetAllowance\<close> (basket-swap.js lines 91-132; single-swap.js lines 63-104
  is the same text). The gas price is awaited while the argument of \<open>approve\<close> is
  built, so before the approval is sent.
\<close>

definition checkAndSetAllowance ::
  "provider \<Rightarrow> wallet \<Rightarrow> address \<Rightarrow> address \<Rightarrow> int \<Rightarrow> bool io" where
  "checkAndSetAllowance p w tokenAddress spenderAddress amount =
     and_then (await (EvAllowance tokenAddress (address w) spenderAddress)
                 (allowance p tokenAddress (address w) spenderAddress))
       (\<lambda>currentAllowance.
          if int currentAllowance < amount then
            and_then (await EvGetGasPrice (getGasPrice p))
              (\<lambda>price.
                 and_then (await (EvApprove tokenAddress spenderAddress MaxUint256 100000 (int price))
                             (approve p tokenAddress spenderAddress MaxUint256 100000 (int price)))
                   (\<lambda>hash.
                      and_then (await (EvWait hash) (wait p hash))
                        (\<lambda>approveReceipt. resolve True)))
          else resolve False)"

text \<open>An entry of \<open>requiredAllowances\<close> in the API's answer.\<close>

record token_info =
  token_address :: "string option"
  symbol :: "string option"

record required_allowance =
  token :: "token_info option"
  allowanceTarget :: "string option"
  neededAllowance :: json

text \<open>
  The callback of \<open>requiredAllowances.map\<close> up to its call of
  \<open>checkAndSetAllowance\<close> (basket-swap.js lines 147-166): it runs synchronously.
  Reading \<open>allowance.token.address\<close> when \<open>token\<close> is absent throws a TypeError.
\<close>

definition allowance_arguments ::
  "ethers \<Rightarrow> required_allowance \<Rightarrow> js_error + (address \<times> address \<times> int)" where
  "allowance_arguments lib a =
     (case token a of
        None \<Rightarrow> Inl (TypeError ''Cannot read properties of undefined (reading 'address')'')
      | Some tok \<Rightarrow>
          if \<not> truthy_str (token_address tok) \<or> \<not> truthy_str (allowanceTarget a)
             \<or> \<not> truthy (neededAllowance a)
          then Inl (Error ''Incomplete allowance data'')
          else
            (case (token_address tok, allowanceTarget a) of
               (Some tokenAddress, Some spenderAddress) \<Rightarrow>
                 (case BigNumber_from lib (neededAllowance a) of
                    Inl e \<Rightarrow> Inl e
                  | Inr amount \<Rightarrow> Inr (tokenAddress, spenderAddress, amount))
             | _ \<Rightarrow> Inl (Error ''Incomplete allowance data'')))"

definition allowance_callback ::
  "ethers \<Rightarrow> provider \<Rightarrow> wallet \<Rightarrow> required_allowance \<Rightarrow> bool io" where
  "allowance_callback lib p w a =
     (case allowance_arguments lib a of
        Inl e \<Rightarrow> reject e
      | Inr (tokenAddress, spenderAddress, amount) \<Rightarrow>
          checkAndSetAllowance p w tokenAddress spenderAddress amount)"

text \<open>The first rejected outcome of a list, in list order.\<close>

fun first_rejection :: "(js_error + 'a) list \<Rightarrow> js_error option" where
  "first_rejection [] = None"
| "first_rejection (Inl e # rs) = Some e"
| "first_rejection (Inr x # rs) = first_rejection rs"

text \<open>
  \<open>handleRequiredAllowances\<close> (basket-swap.js lines 137-171). \<open>map\<close> starts every
  callback before \<open>Promise.all\<close> is awaited, so the checks of all complete entries
  run, also when another entry is rejected; the trace lists their calls entry by entry.
  \<open>Promise.all\<close> rejects with the first rejection: a callback that threw before its
  first \<open>await\<close> comes before any failure of a node call. The checks run concurrently:
  the code interleaves their calls and, among failing node calls, rejects with the one
  that fails first in time. The model fixes one schedule, entry after entry, so the
  order of the events of different entries and the choice among several failing node
  calls are those of that schedule only. What does not depend on the schedule is proved
  below: whether the result is an error (\<open>handleRequiredAllowances_fails_iff\<close>) and
  which events each entry contributes (\<open>handleRequiredAllowances_trace\<close>). The
  function returns nothing: its result is \<open>undefined\<close>.
\<close>

definition handleRequiredAllowances ::
  "ethers \<Rightarrow> provider \<Rightarrow> wallet \<Rightarrow> required_allowance list option \<Rightarrow> json io" where
  "handleRequiredAllowances lib p w requiredAllowances =
     (case requiredAllowances of
        None \<Rightarrow> resolve JUndefined
      | Some ras \<Rightarrow>
          if length ras = 0 then resolve JUndefined
          else
            (let approvalPromises = map (allowance_callback lib p w) ras;
                 trace = concat (map snd approvalPromises)
             in case first_rejection (map (allowance_arguments lib) ras) of
                  Some e \<Rightarrow> (Inl e, trace)
                | None \<Rightarrow>
                    (case first_rejection (map fst approvalPromises) of
                       Some e \<Rightarrow> (Inl e, trace)
                     | None \<Rightarrow> (Inr JUndefined, trace))))"

section \<open>Signing, sending and the retry\<close>

text \<open>
  The three awaited statements both scripts repeat: \<open>wallet.signTransaction\<close>,
  \<open>provider.sendTransaction\<close>, \<open>txResponse.wait(1)\<close>.
\<close>

definition signSendWait :: "provider \<Rightarrow> wallet \<Rightarrow> transaction \<Rightarrow> receipt io" where
  "signSendWait p w transaction =
     and_then (await (EvSignTransaction transaction) (signTransaction w transaction))
       (\<lambda>signedTx.
          and_then (await (EvSendTransaction signedTx) (sendTransaction p signedTx))
            (\<lambda>hash. and_then (await (EvWait hash) (wait p hash)) resolve))"

text \<open>\<open>try { body } catch (error) { handler }\<close>: the handler runs after the body's events.\<close>

definition try_catch :: "'a io \<Rightarrow> (js_error \<Rightarrow> 'a io) \<Rightarrow> 'a io" where
  "try_catch body handler =
     (case body of
        (Inr x, t) \<Rightarrow> (Inr x, t)
      | (Inl error, t) \<Rightarrow> (case handler error of (r, t') \<Rightarrow> (r, t @ t')))"

text \<open>The test of both catch blocks (basket-swap.js line 381, single-swap.js line 216).\<close>

definition gas_limit_error :: "js_error \<Rightarrow> bool" where
  "gas_limit_error error =
     (str_includes (message error) ''gas limit''
      \<or> str_includes (message error) ''UNPREDICTABLE_GAS_LIMIT'')"

text \<open>basket-swap.js lines 359-395: the retry raises the limit by half.\<close>

definition submit_rebalancing :: "provider \<Rightarrow> wallet \<Rightarrow> transaction \<Rightarrow> receipt io" where
  "submit_rebalancing p w transaction =
     try_catch (signSendWait p w transaction)
       (\<lambda>error.
          if gas_limit_error error then
            signSendWait p w
              (transaction\<lparr>gasLimit := BigNumber_div (BigNumber_mul (gasLimit transaction) 150) 100\<rparr>)
          else reject error)"

text \<open>single-swap.js lines 194-230: the retry uses the limit 750000.\<close>

definition submit_swap :: "provider \<Rightarrow> wallet \<Rightarrow> transaction \<Rightarrow> receipt io" where
  "submit_swap p w transaction =
     try_catch (signSendWait p w transaction)
       (\<lambda>error.
          if gas_limit_error error then signSendWait p w (transaction\<lparr>gasLimit := 750000\<rparr>)
          else reject error)"

section \<open>The batch rebalancing flow\<close>

text \<open>
  The fields of the rebalancing answer that \<open>executeWalletRebalancing\<close> reads after
  its report (the report itself only prints).
\<close>

record rebalancing_data =
  txHandler :: "string option"
  txData :: "string option"
  txValue :: json
  requiredAllowances :: "required_allowance list option"

text \<open>
  basket-swap.js lines 315-329: the estimate with its 20% buffer, or 3000000 when
  \<open>estimateGas\<close> throws. The catch block only warns, so the outcome is never an error.
\<close>

definition estimateGasLimit :: "provider \<Rightarrow> call_request \<Rightarrow> int io" where
  "estimateGasLimit p request =
     try_catch
       (and_then (await (EvEstimateGas request) (estimateGas p request))
          (\<lambda>gasLimit. resolve (BigNumber_div (BigNumber_mul (int gasLimit) 120) 100)))
       (\<lambda>error. resolve 3000000)"

text \<open>
  basket-swap.js lines 305-345: the transaction to sign. The gas price is always the
  node's; the answer carries no gas price.
\<close>

definition rebalancing_transaction ::
  "ethers \<Rightarrow> provider \<Rightarrow> wallet \<Rightarrow> address \<Rightarrow> string \<Rightarrow> json \<Rightarrow> transaction io" where
  "rebalancing_transaction lib p w handler calldata amount =
     and_then (lift (if truthy amount then BigNumber_from lib amount else Inr 0))
       (\<lambda>v.
     and_then (await EvGetGasPrice (getGasPrice p))
       (\<lambda>price.
     and_then (estimateGasLimit p
                 \<lparr>call_from = address w, call_to = handler, call_data = calldata, call_value = v\<rparr>)
       (\<lambda>limit.
     and_then (await (EvGetTransactionCount (address w)) (getTransactionCount p (address w)))
       (\<lambda>n.
     and_then (await EvGetNetwork (getNetwork p))
       (\<lambda>chain.
          resolve \<lparr>to = handler, data = calldata, value = v, gasLimit = limit,
                   gasPrice = int price, nonce = n, chainId = chain\<rparr>)))))"

text \<open>
  \<open>executeWalletRebalancing\<close> from the check of the transaction data on (basket-swap.js
  lines 296-395), given the API's answer. An answer without \<open>txHandler\<close> or \<open>txData\<close>
  ends the function with a warning and no value (\<open>None\<close>); otherwise the result is the
  receipt.
\<close>

definition executeWalletRebalancing ::
  "ethers \<Rightarrow> provider \<Rightarrow> wallet \<Rightarrow> rebalancing_data \<Rightarrow> receipt option io" where
  "executeWalletRebalancing lib p w rebalancingData =
     (if \<not> truthy_str (txHandler rebalancingData) \<or> \<not> truthy_str (txData rebalancingData)
      then resolve None
      else
        (case (txHandler rebalancingData, txData rebalancingData) of
           (Some handler, Some calldata) \<Rightarrow>
             and_then (handleRequiredAllowances lib p w (requiredAllowances rebalancingData))
               (\<lambda>u.
             and_then (rebalancing_transaction lib p w handler calldata (txValue rebalancingData))
               (\<lambda>transaction.
             and_then (submit_rebalancing p w transaction)
               (\<lambda>receipt. resolve (Some receipt))))
         | _ \<Rightarrow> resolve None))"

section \<open>The single swap flow\<close>

text \<open>\<open>quoteData.transaction\<close> of the quote answer.\<close>

record quote_transaction =
  quote_to :: address
  quote_data :: string
  quote_value :: json
  quote_gasPrice :: json

definition fromTokenAddress :: address where
  "fromTokenAddress = ''0xdAC17F958D2ee523a2206206994597C13D831ec7''"

text \<open>
  single-swap.js lines 159-185: the gas price is the quote's when that field is
  truthy, else the node's; the gas limit is the constant 500000 and no estimate is made.
\<close>

definition swap_transaction ::
  "ethers \<Rightarrow> provider \<Rightarrow> wallet \<Rightarrow> quote_transaction \<Rightarrow> transaction io" where
  "swap_transaction lib p w q =
     and_then (lift (if truthy (quote_value q) then BigNumber_from lib (quote_value q) else Inr 0))
       (\<lambda>v.
     and_then (if truthy (quote_gasPrice q) then lift (BigNumber_from lib (quote_gasPrice q))
               else and_then (await EvGetGasPrice (getGasPrice p)) (\<lambda>price. resolve (int price)))
       (\<lambda>price.
     and_then (await (EvGetTransactionCount (address w)) (getTransactionCount p (address w)))
       (\<lambda>n.
     and_then (await EvGetNetwork (getNetwork p))
       (\<lambda>chain.
          resolve \<lparr>to = quote_to q, data = quote_data q, value = v, gasLimit = 500000,
                   gasPrice = price, nonce = n, chainId = chain\<rparr>))))"

text \<open>
  \<open>swapWithThirtyOneThird\<close> of single-swap.js from the allowance check on (lines
  147-230), given the quote's transaction. The amount sold is \<open>parseUnits("1", 6)\<close>.
\<close>

definition swapWithThirtyOneThird ::
  "ethers \<Rightarrow> provider \<Rightarrow> wallet \<Rightarrow> quote_transaction \<Rightarrow> receipt io" where
  "swapWithThirtyOneThird lib p w q =
     and_then (checkAndSetAllowance p w fromTokenAddress (quote_to q) 1000000)
       (\<lambda>approved.
     and_then (swap_transaction lib p w q)
       (\<lambda>transaction. submit_swap p w transaction))"

section \<open>Reading a trace\<close>

fun is_approval :: "event \<Rightarrow> bool" where
  "is_approval (EvApprove tok spender amount limit price) = True"
| "is_approval ev = False"

fun is_allowance_read :: "event \<Rightarrow> bool" where
  "is_allowance_read (EvAllowance tok owner spender) = True"
| "is_allowance_read ev = False"

fun is_estimate :: "event \<Rightarrow> bool" where
  "is_estimate (EvEstimateGas request) = True"
| "is_estimate ev = False"

fun is_sign :: "event \<Rightarrow> bool" where
  "is_sign (EvSignTransaction transaction) = True"
| "is_sign ev = False"

fun is_sign_or_send :: "event \<Rightarrow> bool" where
  "is_sign_or_send (EvSignTransaction transaction) = True"
| "is_sign_or_send (EvSendTransaction signedTx) = True"
| "is_sign_or_send ev = False"

text \<open>The transactions handed to \<open>wallet.signTransaction\<close>, in order.\<close>

fun signed_transactions :: "event list \<Rightarrow> transaction list" where
  "signed_transactions [] = []"
| "signed_transactions (EvSignTransaction transaction # evs) =
     transaction # signed_transactions evs"
| "signed_transactions (ev # evs) = signed_transactions evs"

text \<open>
  \<open>precedes p q evs\<close>: no event satisfying \<open>q\<close> occurs in \<open>evs\<close> before the first
  event satisfying \<open>p\<close>, and none at all when there is no such event.
\<close>

fun precedes :: "(event \<Rightarrow> bool) \<Rightarrow> (event \<Rightarrow> bool) \<Rightarrow> event list \<Rightarrow> bool" where
  "precedes p q [] = True"
| "precedes p q (ev # evs) = (if p ev then True else \<not> q ev \<and> precedes p q evs)"

text \<open>
  An entry is under-approved when its callback reaches the allowance read and the
  node's answer is below the amount needed.
\<close>

definition under_approved :: "ethers \<Rightarrow> provider \<Rightarrow> wallet \<Rightarrow> required_allowance \<Rightarrow> bool" where
  "under_approved lib p w a =
     (case allowance_arguments lib a of
        Inl e \<Rightarrow> False
      | Inr (tokenAddress, spenderAddress, amount) \<Rightarrow>
          (case allowance p tokenAddress (address w) spenderAddress of
             Inl e \<Rightarrow> False
           | Inr currentAllowance \<Rightarrow> int currentAllowance < amount))"

text \<open>
  An entry is already satisfied when its callback reaches the allowance read and the
  node's answer is at least the amount needed.
\<close>

definition already_satisfied :: "ethers \<Rightarrow> provider \<Rightarrow> wallet \<Rightarrow> required_allowance \<Rightarrow> bool" where
  "already_satisfied lib p w a =
     (case allowance_arguments lib a of
        Inl e \<Rightarrow> False
      | Inr (tokenAddress, spenderAddress, amount) \<Rightarrow>
          (case allowance p tokenAddress (address w) spenderAddress of
             Inl e \<Rightarrow> False
           | Inr currentAllowance \<Rightarrow> amount \<le> int currentAllowance))"

section \<open>Sample inputs\<close>

text \<open>
  A stand-in for \<open>BigNumber.from\<close> on the inputs the samples use: a safe integer and
  an unsigned decimal string are converted, anything else is rejected.
\<close>

fun position :: "char \<Rightarrow> string \<Rightarrow> nat option" where
  "position c [] = None"
| "position c (d # ds) = (if c = d then Some 0 else map_option Suc (position c ds))"

definition digit :: "char \<Rightarrow> nat option" where
  "digit c = position c ''0123456789''"

fun decimal :: "nat \<Rightarrow> string \<Rightarrow> nat option" where
  "decimal acc [] = Some acc"
| "decimal acc (c # cs) =
     (case digit c of None \<Rightarrow> None | Some d \<Rightarrow> decimal (10 * acc + d) cs)"

definition sample_lib :: ethers where
  "sample_lib =
     \<lparr>BigNumber_from = (\<lambda>j.
        case j of
          JNum n \<Rightarrow>
            if \<bar>n\<bar> < 9007199254740991 then Inr n else Inl (Error ''overflow'')
        | JStr s \<Rightarrow>
            (case decimal 0 s of
               Some n \<Rightarrow> if s = [] then Inl (Error ''invalid BigNumber string'') else Inr (int n)
             | None \<Rightarrow> Inl (Error ''invalid BigNumber string''))
        | _ \<Rightarrow> Inl (Error ''invalid BigNumber value''))\<rparr>"

definition GRT :: address where
  "GRT = ''0xc944E90C64B2c07662A292be6244BDf05Cda44a7''"

definition sample_spender :: address where
  "sample_spender = ''0x0000000000000000000000000000000000000031''"

text \<open>
  A node on which the wallet has approved nothing for GRT and plenty for every other
  token, the gas price is 5, every estimate is 100000, and a transaction signed with a
  gas limit under 150000 is refused.
\<close>

definition sample_provider :: provider where
  "sample_provider =
     \<lparr>allowance = (\<lambda>tok owner spender. if tok = GRT then Inr 0 else Inr (10 ^ 30)),
      approve = (\<lambda>tok spender amount limit price. Inr ''0xa1''),
      getGasPrice = Inr 5,
      estimateGas = (\<lambda>request. Inr 100000),
      getTransactionCount = (\<lambda>a. Inr 7),
      getNetwork = Inr 1,
      sendTransaction = (\<lambda>signedTx.
        if signedTx = ''low'' then Inl (Error ''exceeds block gas limit'') else Inr ''0xb2''),
      wait = (\<lambda>hash. Inr \<lparr>blockNumber = 19000000, gasUsed = 21000\<rparr>)\<rparr>"

text \<open>The same node refusing every transaction for a reason other than gas.\<close>

definition refusing_provider :: provider where
  "refusing_provider =
     sample_provider\<lparr>sendTransaction := (\<lambda>signedTx. Inl (Error ''nonce too low''))\<rparr>"

text \<open>The same node unable to estimate.\<close>

definition blind_provider :: provider where
  "blind_provider =
     sample_provider\<lparr>estimateGas := (\<lambda>request. Inl (Error ''execution reverted''))\<rparr>"

definition sample_wallet :: wallet where
  "sample_wallet =
     \<lparr>address = ''0x00000000000000000000000000000000000000aa'',
      signTransaction = (\<lambda>t. Inr (if gasLimit t < 150000 then ''low'' else ''high''))\<rparr>"

definition sample_transaction :: transaction where
  "sample_transaction =
     \<lparr>to = sample_spender, data = ''0x12'', value = 0, gasLimit = 120000, gasPrice = 5,
      nonce = 7, chainId = 1\<rparr>"

definition sample_request :: call_request where
  "sample_request =
     \<lparr>call_from = address sample_wallet, call_to = sample_spender, call_data = ''0x12'',
      call_value = 0\<rparr>"

definition sample_entry :: required_allowance where
  "sample_entry =
     \<lparr>token = Some \<lparr>token_address = Some GRT, symbol = Some ''GRT''\<rparr>,
      allowanceTarget = Some sample_spender,
      neededAllowance = JStr ''2000000000000000000''\<rparr>"

text \<open>
  An entry for USDT, for which the sample node reports an allowance of \<open>10 ^ 30\<close>: once
  with a needed amount of one million base units, once with the number 0.
\<close>

definition approved_entry :: required_allowance where
  "approved_entry =
     \<lparr>token = Some \<lparr>token_address = Some fromTokenAddress, symbol = Some ''USDT''\<rparr>,
      allowanceTarget = Some sample_spender,
      neededAllowance = JStr ''1000000''\<rparr>"

definition zero_entry :: required_allowance where
  "zero_entry = approved_entry\<lparr>neededAllowance := JNum 0\<rparr>"

definition sample_quote :: quote_transaction where
  "sample_quote =
     \<lparr>quote_to = sample_spender, quote_data = ''0x12'', quote_value = JStr ''0'',
      quote_gasPrice = JNum 0\<rparr>"

definition sample_rebalancing :: rebalancing_data where
  "sample_rebalancing =
     \<lparr>txHandler = Some sample_spender, txData = Some ''0x12'', txValue = JUndefined,
      requiredAllowances = Some [sample_entry]\<rparr>"

section \<open>Lemmas on the building blocks\<close>

lemma str_includes_iff: "str_includes s sub \<longleftrightarrow> (\<exists>pre post. s = pre @ sub @ post)"
proof -
  have pre: "is_prefix a b \<longleftrightarrow> (\<exists>post. b = a @ post)" for a b
    by (induction a b rule: is_prefix.induct) auto
  show ?thesis
  proof (induction s)
    case Nil
    then show ?case by auto
  next
    case (Cons c cs)
    show ?case
    proof
      assume "str_includes (c # cs) sub"
      then consider "is_prefix sub (c # cs)" | "str_includes cs sub" by auto
      then show "\<exists>pre post. c # cs = pre @ sub @ post"
      proof cases
        case 1
        then obtain post where "c # cs = sub @ post" using pre by blast
        then have "c # cs = [] @ sub @ post" by simp
        then show ?thesis by blast
      next
        case 2
        with Cons obtain pre' post where "cs = pre' @ sub @ post" by blast
        then have "c # cs = (c # pre') @ sub @ post" by simp
        then show ?thesis by blast
      qed
    next
      assume "\<exists>pre post. c # cs = pre @ sub @ post"
      then obtain pre' post where eq: "c # cs = pre' @ sub @ post" by blast
      show "str_includes (c # cs) sub"
      proof (cases pre')
        case Nil
        with eq have "is_prefix sub (c # cs)" using pre by auto
        then show ?thesis by simp
      next
        case (Cons d ds)
        with eq have "cs = ds @ sub @ post" by simp
        with Cons.IH have "str_includes cs sub" by blast
        then show ?thesis by simp
      qed
    qed
  qed
qed

lemma snd_and_then:
  "snd (and_then m f) = snd m @ (case fst m of Inl e \<Rightarrow> [] | Inr x \<Rightarrow> snd (f x))"
  by (cases m) (simp add: and_then_def split: sum.splits prod.splits)

lemma fst_and_then:
  "fst (and_then m f) = (case fst m of Inl e \<Rightarrow> Inl e | Inr x \<Rightarrow> fst (f x))"
  by (cases m) (simp add: and_then_def split: sum.splits prod.splits)

lemma try_catch_Inl:
  "fst body = Inl error \<Longrightarrow>
   try_catch body handler = (fst (handler error), snd body @ snd (handler error))"
  by (cases body) (simp add: try_catch_def split: prod.splits)

lemma BigNumber_div_nonneg: "0 \<le> a \<Longrightarrow> BigNumber_div a 100 = a div 100"
  by (cases "a = 0") (simp_all add: BigNumber_div_def)

lemma raise_150:
  "0 \<le> g \<Longrightarrow> BigNumber_div (BigNumber_mul g 150) 100 = g * 150 div 100"
  "2 \<le> g \<Longrightarrow> g < BigNumber_div (BigNumber_mul g 150) 100"
proof -
  have floor: "BigNumber_div (BigNumber_mul g 150) 100 = g * 150 div 100" if "0 \<le> g"
  proof -
    from that have "0 \<le> g * 150" by simp
    then show ?thesis unfolding BigNumber_mul_def by (rule BigNumber_div_nonneg)
  qed
  show "0 \<le> g \<Longrightarrow> BigNumber_div (BigNumber_mul g 150) 100 = g * 150 div 100"
    by (rule floor)
  show "g < BigNumber_div (BigNumber_mul g 150) 100" if g: "2 \<le> g"
  proof -
    from g have "(g + 1) * 100 \<le> g * 150" by simp
    then have "(g + 1) * 100 div 100 \<le> g * 150 div 100" by (rule zdiv_mono1) simp
    then have "g < g * 150 div 100" by simp
    moreover from g have "BigNumber_div (BigNumber_mul g 150) 100 = g * 150 div 100"
      by (intro floor) simp
    ultimately show ?thesis by (simp only:)
  qed
qed

lemma buffer_120: "BigNumber_div (BigNumber_mul (int g) 120) 100 = int (g * 120 div 100)"
  by (simp add: BigNumber_mul_def BigNumber_div_nonneg zdiv_int)

text \<open>The outcomes of \<open>checkAndSetAllowance\<close>, one per call that can throw.\<close>

lemma checkAndSetAllowance_cases:
  "checkAndSetAllowance p w tok sp amount =
     (case allowance p tok (address w) sp of
        Inl e \<Rightarrow> (Inl e, [EvAllowance tok (address w) sp])
      | Inr cur \<Rightarrow>
          if int cur < amount then
            (case getGasPrice p of
               Inl e \<Rightarrow> (Inl e, [EvAllowance tok (address w) sp, EvGetGasPrice])
             | Inr price \<Rightarrow>
                 (case approve p tok sp MaxUint256 100000 (int price) of
                    Inl e \<Rightarrow> (Inl e, [EvAllowance tok (address w) sp, EvGetGasPrice,
                                      EvApprove tok sp MaxUint256 100000 (int price)])
                  | Inr hash \<Rightarrow>
                      (case wait p hash of
                         Inl e \<Rightarrow> (Inl e, [EvAllowance tok (address w) sp, EvGetGasPrice,
                                          EvApprove tok sp MaxUint256 100000 (int price), EvWait hash])
                       | Inr rc \<Rightarrow> (Inr True, [EvAllowance tok (address w) sp, EvGetGasPrice,
                                          EvApprove tok sp MaxUint256 100000 (int price), EvWait hash]))))
          else (Inr False, [EvAllowance tok (address w) sp]))"
  by (simp add: checkAndSetAllowance_def and_then_def await_def resolve_def split: sum.splits)

lemma checkAndSetAllowance_approvals:
  "fst (checkAndSetAllowance p w tok sp amount) = Inr b \<Longrightarrow>
   length (filter is_approval (snd (checkAndSetAllowance p w tok sp amount))) = (if b then 1 else 0)"
  by (auto simp add: checkAndSetAllowance_cases split: sum.splits if_splits)

lemma checkAndSetAllowance_quiet:
  "ev \<in> set (snd (checkAndSetAllowance p w tok sp amount)) \<Longrightarrow>
   \<not> is_sign_or_send ev \<and> \<not> is_estimate ev"
  by (auto simp add: checkAndSetAllowance_cases split: sum.splits if_splits)

lemma checkAndSetAllowance_no_estimate:
  "filter is_estimate (snd (checkAndSetAllowance p w tok sp amount)) = []"
  by (simp add: checkAndSetAllowance_cases split: sum.splits)

text \<open>The outcomes of one attempt to sign, send and confirm.\<close>

lemma signSendWait_cases:
  "signSendWait p w t =
     (case signTransaction w t of
        Inl e \<Rightarrow> (Inl e, [EvSignTransaction t])
      | Inr signedTx \<Rightarrow>
          (case sendTransaction p signedTx of
             Inl e \<Rightarrow> (Inl e, [EvSignTransaction t, EvSendTransaction signedTx])
           | Inr hash \<Rightarrow>
               (case wait p hash of
                  Inl e \<Rightarrow> (Inl e, [EvSignTransaction t, EvSendTransaction signedTx, EvWait hash])
                | Inr rc \<Rightarrow> (Inr rc, [EvSignTransaction t, EvSendTransaction signedTx, EvWait hash]))))"
  by (simp add: signSendWait_def and_then_def await_def resolve_def split: sum.splits)

lemma signed_signSendWait: "signed_transactions (snd (signSendWait p w t)) = [t]"
  by (simp add: signSendWait_cases split: sum.splits)

lemma signed_transactions_append:
  "signed_transactions (xs @ ys) = signed_transactions xs @ signed_transactions ys"
  by (induction xs rule: signed_transactions.induct) simp_all

lemma signSendWait_no_estimate: "filter is_estimate (snd (signSendWait p w t)) = []"
  by (simp add: signSendWait_cases split: sum.splits)

lemma submit_swap_no_estimate: "filter is_estimate (snd (submit_swap p w t)) = []"
  by (cases "signSendWait p w t")
     (auto simp add: submit_swap_def try_catch_def reject_def signSendWait_no_estimate
        split: sum.splits prod.splits
        dest: arg_cong [where f = "\<lambda>x. filter is_estimate (snd x)"])

lemma estimateGasLimit_cases:
  "estimateGasLimit p request =
     (Inr (case estimateGas p request of
             Inr g \<Rightarrow> int (g * 120 div 100)
           | Inl error \<Rightarrow> 3000000),
      [EvEstimateGas request])"
  by (simp add: estimateGasLimit_def try_catch_def and_then_def await_def resolve_def buffer_120
           split: sum.splits)

text \<open>The reconciliation: which entries reject it, and what a success implies.\<close>

lemma first_rejection_mem: "Inl e \<in> set rs \<Longrightarrow> \<exists>e'. first_rejection rs = Some e'"
  by (induction rs rule: first_rejection.induct) auto

lemma first_rejection_None: "first_rejection rs = None \<Longrightarrow> r \<in> set rs \<Longrightarrow> \<exists>x. r = Inr x"
  by (induction rs rule: first_rejection.induct) auto

lemma first_rejection_all_Inr: "\<forall>r \<in> set rs. \<exists>x. r = Inr x \<Longrightarrow> first_rejection rs = None"
  by (induction rs rule: first_rejection.induct) auto

lemma handleRequiredAllowances_rejected:
  assumes "a \<in> set ras" and "allowance_arguments lib a = Inl e"
  shows "\<exists>e'. fst (handleRequiredAllowances lib p w (Some ras)) = Inl e'"
proof -
  from assms have "Inl e \<in> set (map (allowance_arguments lib) ras)"
    by (metis image_eqI set_map)
  then obtain e' where "first_rejection (map (allowance_arguments lib) ras) = Some e'"
    using first_rejection_mem by blast
  moreover from assms(1) have "ras \<noteq> []" by auto
  ultimately show ?thesis
    by (simp add: handleRequiredAllowances_def Let_def)
qed

lemma handleRequiredAllowances_trace:
  "snd (handleRequiredAllowances lib p w required) =
     (case required of
        None \<Rightarrow> []
      | Some ras \<Rightarrow> concat (map (\<lambda>a. snd (allowance_callback lib p w a)) ras))"
  by (simp add: handleRequiredAllowances_def Let_def resolve_def comp_def split: option.splits)

lemma first_rejection_Some: "first_rejection rs = Some e \<Longrightarrow> Inl e \<in> set rs"
  by (induction rs rule: first_rejection.induct) auto

lemma allowance_callback_rejected:
  "allowance_arguments lib a = Inl e \<Longrightarrow> allowance_callback lib p w a = (Inl e, [])"
  by (simp add: allowance_callback_def reject_def)

text \<open>The reconciliation fails exactly when the callback of some entry is rejected.\<close>

lemma handleRequiredAllowances_fails_iff:
  "(\<exists>e. fst (handleRequiredAllowances lib p w (Some ras)) = Inl e) \<longleftrightarrow>
   (\<exists>a \<in> set ras. \<exists>e. fst (allowance_callback lib p w a) = Inl e)"
proof
  assume "\<exists>e. fst (handleRequiredAllowances lib p w (Some ras)) = Inl e"
  then obtain e where e: "fst (handleRequiredAllowances lib p w (Some ras)) = Inl e" by blast
  then have ne: "ras \<noteq> []"
    by (auto simp add: handleRequiredAllowances_def resolve_def)
  show "\<exists>a \<in> set ras. \<exists>e. fst (allowance_callback lib p w a) = Inl e"
  proof (cases "first_rejection (map (allowance_arguments lib) ras)")
    case (Some e')
    then have "Inl e' \<in> set (map (allowance_arguments lib) ras)"
      by (rule first_rejection_Some)
    then obtain a where a: "a \<in> set ras" and "allowance_arguments lib a = Inl e'" by auto
    then have "fst (allowance_callback lib p w a) = Inl e'"
      by (simp add: allowance_callback_rejected)
    with a show ?thesis by blast
  next
    case None
    with e ne obtain e' where
      "first_rejection (map fst (map (allowance_callback lib p w) ras)) = Some e'"
      by (cases "first_rejection (map fst (map (allowance_callback lib p w) ras))")
         (simp_all add: handleRequiredAllowances_def Let_def)
    then have "Inl e' \<in> set (map fst (map (allowance_callback lib p w) ras))"
      by (rule first_rejection_Some)
    then obtain a where "a \<in> set ras" "fst (allowance_callback lib p w a) = Inl e'"
      by auto
    then show ?thesis by blast
  qed
next
  assume "\<exists>a \<in> set ras. \<exists>e. fst (allowance_callback lib p w a) = Inl e"
  then obtain a e where a: "a \<in> set ras" and e: "fst (allowance_callback lib p w a) = Inl e"
    by blast
  from a have ne: "ras \<noteq> []" by auto
  from a e have "Inl e \<in> set (map fst (map (allowance_callback lib p w) ras))"
    by force
  then obtain e' where
    "first_rejection (map fst (map (allowance_callback lib p w) ras)) = Some e'"
    using first_rejection_mem by blast
  with ne show "\<exists>e. fst (handleRequiredAllowances lib p w (Some ras)) = Inl e"
    by (cases "first_rejection (map (allowance_arguments lib) ras)")
       (simp_all add: handleRequiredAllowances_def Let_def)
qed

lemma handleRequiredAllowances_success:
  assumes "fst (handleRequiredAllowances lib p w (Some ras)) = Inr v"
  shows "v = JUndefined"
    and "\<forall>a \<in> set ras. \<exists>b. fst (allowance_callback lib p w a) = Inr b"
proof -
  show "v = JUndefined"
    using assms
    by (simp add: handleRequiredAllowances_def Let_def resolve_def split: option.splits if_splits)
  show "\<forall>a \<in> set ras. \<exists>b. fst (allowance_callback lib p w a) = Inr b"
  proof
    fix a assume a: "a \<in> set ras"
    then have ne: "ras \<noteq> []" by auto
    from assms ne have "first_rejection (map fst (map (allowance_callback lib p w) ras)) = None"
      by (simp add: handleRequiredAllowances_def Let_def split: option.splits)
    moreover from a
    have "fst (allowance_callback lib p w a) \<in> set (map fst (map (allowance_callback lib p w) ras))"
      by auto
    ultimately show "\<exists>b. fst (allowance_callback lib p w a) = Inr b"
      using first_rejection_None by blast
  qed
qed

lemma allowance_callback_approvals:
  assumes "fst (allowance_callback lib p w a) = Inr b"
  shows "length (filter is_approval (snd (allowance_callback lib p w a))) =
           (if under_approved lib p w a then 1 else 0)"
  using assms
  by (auto simp add: allowance_callback_def under_approved_def checkAndSetAllowance_cases reject_def
           split: sum.splits prod.splits if_splits)

lemma approvals_concat:
  assumes "\<forall>a \<in> set ras. \<exists>b. fst (allowance_callback lib p w a) = Inr b"
  shows "length (filter is_approval (concat (map (\<lambda>a. snd (allowance_callback lib p w a)) ras))) =
           length (filter (under_approved lib p w) ras)"
  using assms
proof (induction ras)
  case Nil
  then show ?case by simp
next
  case (Cons a ras)
  then obtain b where "fst (allowance_callback lib p w a) = Inr b" by auto
  then have "length (filter is_approval (snd (allowance_callback lib p w a))) =
           (if under_approved lib p w a then 1 else 0)"
    by (rule allowance_callback_approvals)
  with Cons show ?case by simp
qed

lemma allowance_callback_quiet:
  "ev \<in> set (snd (allowance_callback lib p w a)) \<Longrightarrow> \<not> is_sign_or_send ev \<and> \<not> is_estimate ev"
  using checkAndSetAllowance_quiet
  by (auto simp add: allowance_callback_def reject_def split: sum.splits prod.splits)

lemma handleRequiredAllowances_quiet:
  "ev \<in> set (snd (handleRequiredAllowances lib p w required)) \<Longrightarrow>
   \<not> is_sign_or_send ev \<and> \<not> is_estimate ev"
  using allowance_callback_quiet
  by (auto simp add: handleRequiredAllowances_trace split: option.splits)

text \<open>
  A reconciliation whose entries are all complete and already satisfied succeeds and
  sends no approval.
\<close>

lemma handleRequiredAllowances_all_sufficient:
  assumes "\<forall>a \<in> set ras. \<exists>tok sp amount cur.
             allowance_arguments lib a = Inr (tok, sp, amount)
             \<and> allowance p tok (address w) sp = Inr cur \<and> amount \<le> int cur"
  shows "fst (handleRequiredAllowances lib p w (Some ras)) = Inr JUndefined"
    and "filter is_approval (snd (handleRequiredAllowances lib p w (Some ras))) = []"
proof -
  have cb: "allowance_callback lib p w a = (Inr False, [EvAllowance tok (address w) sp])"
    if "allowance_arguments lib a = Inr (tok, sp, amount)"
      and "allowance p tok (address w) sp = Inr cur" and "amount \<le> int cur"
    for a tok sp amount cur
    using that by (simp add: allowance_callback_def checkAndSetAllowance_cases)
  have each: "\<exists>tok sp. allowance_callback lib p w a = (Inr False, [EvAllowance tok (address w) sp])"
    if "a \<in> set ras" for a
  proof -
    from assms that obtain tok sp amount cur where
      "allowance_arguments lib a = Inr (tok, sp, amount)"
      "allowance p tok (address w) sp = Inr cur" "amount \<le> int cur"
      by blast
    then show ?thesis using cb by blast
  qed
  have "\<exists>x. allowance_arguments lib a = Inr x" if "a \<in> set ras" for a
    using assms that by blast
  then have args: "first_rejection (map (allowance_arguments lib) ras) = None"
    by (intro first_rejection_all_Inr) auto
  have "\<exists>x. fst (allowance_callback lib p w a) = Inr x" if "a \<in> set ras" for a
    using each [OF that] by auto
  then have outs: "first_rejection (map fst (map (allowance_callback lib p w) ras)) = None"
    by (intro first_rejection_all_Inr) auto
  from args outs show "fst (handleRequiredAllowances lib p w (Some ras)) = Inr JUndefined"
    by (simp add: handleRequiredAllowances_def Let_def resolve_def)
  have "filter is_approval (snd (allowance_callback lib p w a)) = []" if "a \<in> set ras" for a
    using each [OF that] by auto
  then show "filter is_approval (snd (handleRequiredAllowances lib p w (Some ras))) = []"
    by (simp add: handleRequiredAllowances_trace filter_concat)
qed

text \<open>The trace of the batch flow: nothing is signed or sent before the estimate.\<close>

lemma precedes_quiet: "\<forall>ev \<in> set xs. \<not> q ev \<Longrightarrow> precedes p q xs"
  by (induction xs) simp_all

lemma precedes_append: "\<forall>ev \<in> set xs. \<not> q ev \<Longrightarrow> precedes p q ys \<Longrightarrow> precedes p q (xs @ ys)"
  by (induction xs) simp_all

lemma rebalancing_transaction_quiet:
  "ev \<in> set (snd (rebalancing_transaction lib p w handler calldata amount)) \<Longrightarrow>
   \<not> is_sign_or_send ev"
  by (auto simp add: rebalancing_transaction_def snd_and_then estimateGasLimit_cases lift_def
        await_def resolve_def split: sum.splits if_splits)

lemma rebalancing_transaction_estimates:
  "fst (rebalancing_transaction lib p w handler calldata amount) = Inr transaction \<Longrightarrow>
   \<exists>request rest.
     snd (rebalancing_transaction lib p w handler calldata amount) =
       EvGetGasPrice # EvEstimateGas request # rest
     \<and> gasLimit transaction =
         (case estimateGas p request of Inr g \<Rightarrow> int (g * 120 div 100) | Inl error \<Rightarrow> 3000000)"
  by (auto simp add: rebalancing_transaction_def and_then_def estimateGasLimit_cases lift_def
        await_def resolve_def split: sum.splits if_splits)

lemma executeWalletRebalancing_estimates_first:
  "precedes is_estimate is_sign_or_send (snd (executeWalletRebalancing lib p w d))"
proof (cases "\<not> truthy_str (txHandler d) \<or> \<not> truthy_str (txData d)")
  case True
  then show ?thesis by (auto simp add: executeWalletRebalancing_def resolve_def)
next
  case False
  then obtain handler calldata where hc: "txHandler d = Some handler" "txData d = Some calldata"
    by (cases "txHandler d"; cases "txData d") auto
  let ?A = "handleRequiredAllowances lib p w (requiredAllowances d)"
  let ?B = "rebalancing_transaction lib p w handler calldata (txValue d)"
  have quietA: "\<forall>ev \<in> set (snd ?A). \<not> is_sign_or_send ev"
    using handleRequiredAllowances_quiet by blast
  have quietB: "\<forall>ev \<in> set (snd ?B). \<not> is_sign_or_send ev"
    using rebalancing_transaction_quiet by blast
  have rest: "precedes is_estimate is_sign_or_send
                (snd ?B @ (case fst ?B of Inl e \<Rightarrow> [] | Inr t \<Rightarrow> ys t))" for ys
  proof (cases "fst ?B")
    case (Inl e)
    with quietB show ?thesis by (simp add: precedes_quiet)
  next
    case (Inr t)
    from rebalancing_transaction_estimates [OF Inr] Inr show ?thesis by auto
  qed
  have "snd (executeWalletRebalancing lib p w d) =
          snd ?A @ (case fst ?A of
                      Inl e \<Rightarrow> []
                    | Inr u \<Rightarrow> snd ?B @ (case fst ?B of
                                           Inl e \<Rightarrow> []
                                         | Inr t \<Rightarrow> snd (and_then (submit_rebalancing p w t)
                                                           (\<lambda>receipt. resolve (Some receipt)))))"
    using False hc
    by (simp add: executeWalletRebalancing_def snd_and_then cong: sum.case_cong)
  moreover have "precedes is_estimate is_sign_or_send
     (case fst ?A of
        Inl e \<Rightarrow> []
      | Inr u \<Rightarrow> snd ?B @ (case fst ?B of
                             Inl e \<Rightarrow> []
                           | Inr t \<Rightarrow> snd (and_then (submit_rebalancing p w t)
                                             (\<lambda>receipt. resolve (Some receipt)))))"
    using rest by (cases "fst ?A") simp_all
  ultimately show ?thesis
    using quietA by (simp add: precedes_append)
qed

text \<open>The single swap flow never estimates.\<close>

lemma swap_transaction_no_estimate:
  "filter is_estimate (snd (swap_transaction lib p w q)) = []"
  by (auto simp add: swap_transaction_def snd_and_then lift_def await_def resolve_def
        split: sum.splits)

lemma swap_transaction_limit:
  "fst (swap_transaction lib p w q) = Inr transaction \<Longrightarrow> gasLimit transaction = 500000"
  by (auto simp add: swap_transaction_def fst_and_then lift_def await_def resolve_def
        split: sum.splits if_splits)

lemma swapWithThirtyOneThird_no_estimate:
  "filter is_estimate (snd (swapWithThirtyOneThird lib p w q)) = []"
  by (simp add: swapWithThirtyOneThird_def snd_and_then checkAndSetAllowance_no_estimate
        swap_transaction_no_estimate submit_swap_no_estimate split: sum.splits)

text \<open>Facts about the sample inputs.\<close>

lemma sample_nonempty:
  "GRT \<noteq> []" "sample_spender \<noteq> []" "fromTokenAddress \<noteq> GRT"
  by (simp_all add: GRT_def sample_spender_def fromTokenAddress_def)

lemma sample_usdt:
  "fromTokenAddress \<noteq> []"
  "allowance sample_provider fromTokenAddress (address sample_wallet) sample_spender =
     Inr (10 ^ 30)"
  "BigNumber_from sample_lib (JStr ''1000000'') = Inr 1000000"
  "BigNumber_from sample_lib (JNum 0) = Inr 0"
  by (simp_all add: fromTokenAddress_def sample_provider_def GRT_def sample_lib_def digit_def)

lemma sample_amount:
  "BigNumber_from sample_lib (JStr ''2000000000000000000'') = Inr 2000000000000000000"
  by (simp add: sample_lib_def digit_def)

lemma sample_messages:
  "gas_limit_error (Error ''exceeds block gas limit'')"
  "\<not> gas_limit_error (Error ''nonce too low'')"
  "gas_limit_error (Error ''cannot estimate gas (UNPREDICTABLE_GAS_LIMIT)'')"
  by (simp_all add: gas_limit_error_def)

lemma sample_reconciliation:
  "handleRequiredAllowances sample_lib sample_provider sample_wallet (Some [sample_entry]) =
     (Inr JUndefined,
      [EvAllowance GRT (address sample_wallet) sample_spender, EvGetGasPrice,
       EvApprove GRT sample_spender MaxUint256 100000 5, EvWait ''0xa1''])"
  by (simp add: handleRequiredAllowances_def allowance_callback_def allowance_arguments_def
      sample_entry_def sample_amount checkAndSetAllowance_cases sample_provider_def sample_nonempty)

lemma sample_swap:
  "swapWithThirtyOneThird sample_lib sample_provider sample_wallet sample_quote =
     (Inr \<lparr>blockNumber = 19000000, gasUsed = 21000\<rparr>,
      [EvAllowance fromTokenAddress (address sample_wallet) sample_spender,
       EvGetGasPrice, EvGetTransactionCount (address sample_wallet), EvGetNetwork,
       EvSignTransaction \<lparr>to = sample_spender, data = ''0x12'', value = 0, gasLimit = 500000,
          gasPrice = 5, nonce = 7, chainId = 1\<rparr>,
       EvSendTransaction ''high'', EvWait ''0xb2''])"
  by (simp add: swapWithThirtyOneThird_def checkAndSetAllowance_cases swap_transaction_def
      submit_swap_def try_catch_def signSendWait_cases and_then_def await_def lift_def resolve_def
      sample_quote_def sample_provider_def sample_wallet_def sample_lib_def digit_def
      sample_nonempty)

section \<open>The claims\<close>

text \<open>
  C1. When the first attempt to sign, send and confirm fails with an error whose
  message contains \<open>gas limit\<close> or \<open>UNPREDICTABLE_GAS_LIMIT\<close>, exactly one further
  attempt is made: the same transaction with only its gas limit changed (the limit
  times 150 divided by 100 in the batch flow, 750000 in the single swap flow) is signed
  and sent, and the outcome of that second attempt, error or receipt, is the outcome.
  When the message contains neither, nothing more is signed and the error is the
  outcome, unchanged.
\<close>

theorem retry_once_on_gas_limit_error:
  assumes "fst (signSendWait p w transaction) = Inl error"
  shows "(gas_limit_error error \<longrightarrow>
            submit_rebalancing p w transaction =
              (fst (signSendWait p w (transaction\<lparr>gasLimit :=
                      BigNumber_div (BigNumber_mul (gasLimit transaction) 150) 100\<rparr>)),
               snd (signSendWait p w transaction)
               @ snd (signSendWait p w (transaction\<lparr>gasLimit :=
                      BigNumber_div (BigNumber_mul (gasLimit transaction) 150) 100\<rparr>)))
            \<and> signed_transactions (snd (submit_rebalancing p w transaction)) =
                [transaction,
                 transaction\<lparr>gasLimit := BigNumber_div (BigNumber_mul (gasLimit transaction) 150) 100\<rparr>]
            \<and> (0 \<le> gasLimit transaction \<longrightarrow>
                 BigNumber_div (BigNumber_mul (gasLimit transaction) 150) 100 =
                   gasLimit transaction * 150 div 100)
            \<and> (2 \<le> gasLimit transaction \<longrightarrow>
                 gasLimit transaction <
                   BigNumber_div (BigNumber_mul (gasLimit transaction) 150) 100)
            \<and> submit_swap p w transaction =
              (fst (signSendWait p w (transaction\<lparr>gasLimit := 750000\<rparr>)),
               snd (signSendWait p w transaction)
               @ snd (signSendWait p w (transaction\<lparr>gasLimit := 750000\<rparr>)))
            \<and> signed_transactions (snd (submit_swap p w transaction)) =
                [transaction, transaction\<lparr>gasLimit := 750000\<rparr>])
         \<and> (\<not> gas_limit_error error \<longrightarrow>
            submit_rebalancing p w transaction = (Inl error, snd (signSendWait p w transaction))
            \<and> submit_swap p w transaction = (Inl error, snd (signSendWait p w transaction))
            \<and> signed_transactions (snd (submit_rebalancing p w transaction)) = [transaction]
            \<and> signed_transactions (snd (submit_swap p w transaction)) = [transaction])"
proof -
  have floor: "0 \<le> gasLimit transaction \<longrightarrow>
      BigNumber_div (BigNumber_mul (gasLimit transaction) 150) 100 =
        gasLimit transaction * 150 div 100"
    using raise_150(1) by blast
  have more: "2 \<le> gasLimit transaction \<longrightarrow>
      gasLimit transaction < BigNumber_div (BigNumber_mul (gasLimit transaction) 150) 100"
    using raise_150(2) by blast
  have flows: "(gas_limit_error error \<longrightarrow>
            submit_rebalancing p w transaction =
              (fst (signSendWait p w (transaction\<lparr>gasLimit :=
                      BigNumber_div (BigNumber_mul (gasLimit transaction) 150) 100\<rparr>)),
               snd (signSendWait p w transaction)
               @ snd (signSendWait p w (transaction\<lparr>gasLimit :=
                      BigNumber_div (BigNumber_mul (gasLimit transaction) 150) 100\<rparr>)))
            \<and> signed_transactions (snd (submit_rebalancing p w transaction)) =
                [transaction,
                 transaction\<lparr>gasLimit := BigNumber_div (BigNumber_mul (gasLimit transaction) 150) 100\<rparr>]
            \<and> submit_swap p w transaction =
              (fst (signSendWait p w (transaction\<lparr>gasLimit := 750000\<rparr>)),
               snd (signSendWait p w transaction)
               @ snd (signSendWait p w (transaction\<lparr>gasLimit := 750000\<rparr>)))
            \<and> signed_transactions (snd (submit_swap p w transaction)) =
                [transaction, transaction\<lparr>gasLimit := 750000\<rparr>])
         \<and> (\<not> gas_limit_error error \<longrightarrow>
            submit_rebalancing p w transaction = (Inl error, snd (signSendWait p w transaction))
            \<and> submit_swap p w transaction = (Inl error, snd (signSendWait p w transaction))
            \<and> signed_transactions (snd (submit_rebalancing p w transaction)) = [transaction]
            \<and> signed_transactions (snd (submit_swap p w transaction)) = [transaction])"
    using assms
    by (simp add: submit_rebalancing_def submit_swap_def try_catch_Inl reject_def
          signed_transactions_append signed_signSendWait)
  from flows floor more show ?thesis by blast
qed

theorem retry_once_on_gas_limit_error_witness:
  "fst (signSendWait sample_provider sample_wallet sample_transaction) =
     Inl (Error ''exceeds block gas limit'')
   \<and> gas_limit_error (Error ''exceeds block gas limit'')
   \<and> submit_rebalancing sample_provider sample_wallet sample_transaction =
       (Inr \<lparr>blockNumber = 19000000, gasUsed = 21000\<rparr>,
        [EvSignTransaction sample_transaction, EvSendTransaction ''low'',
         EvSignTransaction (sample_transaction\<lparr>gasLimit := 180000\<rparr>),
         EvSendTransaction ''high'', EvWait ''0xb2''])
   \<and> submit_swap sample_provider sample_wallet sample_transaction =
       (Inr \<lparr>blockNumber = 19000000, gasUsed = 21000\<rparr>,
        [EvSignTransaction sample_transaction, EvSendTransaction ''low'',
         EvSignTransaction (sample_transaction\<lparr>gasLimit := 750000\<rparr>),
         EvSendTransaction ''high'', EvWait ''0xb2''])
   \<and> fst (signSendWait refusing_provider sample_wallet sample_transaction) =
       Inl (Error ''nonce too low'')
   \<and> \<not> gas_limit_error (Error ''nonce too low'')
   \<and> submit_rebalancing refusing_provider sample_wallet sample_transaction =
       (Inl (Error ''nonce too low''),
        [EvSignTransaction sample_transaction, EvSendTransaction ''low''])
   \<and> submit_swap refusing_provider sample_wallet sample_transaction =
       (Inl (Error ''nonce too low''),
        [EvSignTransaction sample_transaction, EvSendTransaction ''low''])"
proof -
  have first: "signSendWait sample_provider sample_wallet sample_transaction =
      (Inl (Error ''exceeds block gas limit''),
       [EvSignTransaction sample_transaction, EvSendTransaction ''low''])"
    by (simp add: signSendWait_cases sample_provider_def sample_wallet_def sample_transaction_def)
  have refused: "signSendWait refusing_provider sample_wallet sample_transaction =
      (Inl (Error ''nonce too low''),
       [EvSignTransaction sample_transaction, EvSendTransaction ''low''])"
    by (simp add: signSendWait_cases refusing_provider_def sample_provider_def sample_wallet_def
          sample_transaction_def)
  have raised: "BigNumber_div (BigNumber_mul (gasLimit sample_transaction) 150) 100 = 180000"
    by (simp add: sample_transaction_def BigNumber_mul_def BigNumber_div_nonneg)
  have second: "signSendWait sample_provider sample_wallet (sample_transaction\<lparr>gasLimit := g\<rparr>) =
      (Inr \<lparr>blockNumber = 19000000, gasUsed = 21000\<rparr>,
       [EvSignTransaction (sample_transaction\<lparr>gasLimit := g\<rparr>),
        EvSendTransaction ''high'', EvWait ''0xb2''])" if "150000 \<le> g" for g
    using that by (simp add: signSendWait_cases sample_provider_def sample_wallet_def)
  have h1: "fst (signSendWait sample_provider sample_wallet sample_transaction) =
      Inl (Error ''exceeds block gas limit'')"
    by (simp add: first)
  have h2: "fst (signSendWait refusing_provider sample_wallet sample_transaction) =
      Inl (Error ''nonce too low'')"
    by (simp add: refused)
  show ?thesis
    using retry_once_on_gas_limit_error [OF h1] retry_once_on_gas_limit_error [OF h2]
    by (simp add: sample_messages first refused raised second)
qed

text \<open>
  C2. When \<open>estimateGas\<close> returns \<open>g\<close>, the gas limit is \<open>g * 120 div 100\<close>, the floor of
  \<open>g\<close> times 1.2; when it throws, whatever the error, the gas limit is the constant
  3000000 and no error results: the transaction of the batch flow is built with that
  limit as long as the other reads succeed.
\<close>

theorem estimateGasLimit_buffer_or_fallback:
  "(\<forall>g. estimateGas p request = Inr g \<longrightarrow>
        estimateGasLimit p request = (Inr (int (g * 120 div 100)), [EvEstimateGas request]))
   \<and> (\<forall>error. estimateGas p request = Inl error \<longrightarrow>
        estimateGasLimit p request = (Inr 3000000, [EvEstimateGas request]))
   \<and> (\<forall>v price n chain.
        (if truthy amount then BigNumber_from lib amount else Inr 0) = Inr v
        \<and> getGasPrice p = Inr price
        \<and> getTransactionCount p (address w) = Inr n
        \<and> getNetwork p = Inr chain \<longrightarrow>
        fst (rebalancing_transaction lib p w handler calldata amount) =
          Inr \<lparr>to = handler, data = calldata, value = v,
               gasLimit = (case estimateGas p \<lparr>call_from = address w, call_to = handler,
                                               call_data = calldata, call_value = v\<rparr> of
                             Inr g \<Rightarrow> int (g * 120 div 100)
                           | Inl error \<Rightarrow> 3000000),
               gasPrice = int price, nonce = n, chainId = chain\<rparr>)"
  by (auto simp add: estimateGasLimit_cases rebalancing_transaction_def and_then_def await_def
        resolve_def lift_def)

theorem estimateGasLimit_buffer_or_fallback_witness:
  "estimateGas sample_provider sample_request = Inr 100000
   \<and> estimateGasLimit sample_provider sample_request =
       (Inr 120000, [EvEstimateGas sample_request])
   \<and> estimateGas blind_provider sample_request = Inl (Error ''execution reverted'')
   \<and> estimateGasLimit blind_provider sample_request =
       (Inr 3000000, [EvEstimateGas sample_request])
   \<and> fst (rebalancing_transaction sample_lib blind_provider sample_wallet sample_spender ''0x12''
            JUndefined) =
       Inr \<lparr>to = sample_spender, data = ''0x12'', value = 0, gasLimit = 3000000, gasPrice = 5,
            nonce = 7, chainId = 1\<rparr>"
proof -
  have ok: "estimateGas sample_provider sample_request = Inr 100000"
    by (simp add: sample_provider_def)
  have blind: "estimateGas blind_provider r = Inl (Error ''execution reverted'')" for r
    by (simp add: blind_provider_def sample_provider_def)
  have reads: "getGasPrice blind_provider = Inr 5"
    "getTransactionCount blind_provider (address sample_wallet) = Inr 7"
    "getNetwork blind_provider = Inr 1"
    by (simp_all add: blind_provider_def sample_provider_def)
  show ?thesis
    using estimateGasLimit_buffer_or_fallback
            [of sample_provider sample_request JUndefined sample_lib sample_wallet sample_spender
               "''0x12''"]
          estimateGasLimit_buffer_or_fallback
            [of blind_provider sample_request JUndefined sample_lib sample_wallet sample_spender
               "''0x12''"]
    by (simp add: ok blind reads)
qed

text \<open>
  C3. In the batch flow the gas estimate is requested before the transaction is signed
  or sent, and the transaction carries the buffered estimate when the estimate
  succeeds and 3000000 only when it throws. The single swap flow requests no estimate
  at all: the transaction it builds carries the constant 500000.
\<close>

theorem estimate_first_only_in_rebalancing:
  "precedes is_estimate is_sign_or_send (snd (executeWalletRebalancing lib p w d))
   \<and> (\<forall>transaction.
        fst (rebalancing_transaction lib p w handler calldata amount) = Inr transaction \<longrightarrow>
        (\<exists>request rest.
           snd (rebalancing_transaction lib p w handler calldata amount) =
             EvGetGasPrice # EvEstimateGas request # rest
           \<and> gasLimit transaction =
               (case estimateGas p request of
                  Inr g \<Rightarrow> int (g * 120 div 100)
                | Inl error \<Rightarrow> 3000000)))
   \<and> filter is_estimate (snd (swapWithThirtyOneThird lib p w q)) = []
   \<and> (\<forall>transaction.
        fst (swap_transaction lib p w q) = Inr transaction \<longrightarrow> gasLimit transaction = 500000)"
  using executeWalletRebalancing_estimates_first rebalancing_transaction_estimates
    swapWithThirtyOneThird_no_estimate swap_transaction_limit
  by blast

text \<open>
  The sample swap runs to its receipt, signing a transaction with the limit 500000,
  and its trace holds no estimate.
\<close>

theorem estimate_first_only_in_rebalancing_counterexample:
  "fst (swapWithThirtyOneThird sample_lib sample_provider sample_wallet sample_quote) =
     Inr \<lparr>blockNumber = 19000000, gasUsed = 21000\<rparr>
   \<and> signed_transactions
        (snd (swapWithThirtyOneThird sample_lib sample_provider sample_wallet sample_quote)) =
       [\<lparr>to = sample_spender, data = ''0x12'', value = 0, gasLimit = 500000, gasPrice = 5,
         nonce = 7, chainId = 1\<rparr>]
   \<and> filter is_estimate
        (snd (swapWithThirtyOneThird sample_lib sample_provider sample_wallet sample_quote)) = []"
  by (simp add: sample_swap)

theorem estimate_first_only_in_rebalancing_witness:
  "executeWalletRebalancing sample_lib sample_provider sample_wallet sample_rebalancing =
     (Inr (Some \<lparr>blockNumber = 19000000, gasUsed = 21000\<rparr>),
      [EvAllowance GRT (address sample_wallet) sample_spender, EvGetGasPrice,
       EvApprove GRT sample_spender MaxUint256 100000 5, EvWait ''0xa1'',
       EvGetGasPrice, EvEstimateGas sample_request,
       EvGetTransactionCount (address sample_wallet), EvGetNetwork,
       EvSignTransaction sample_transaction, EvSendTransaction ''low'',
       EvSignTransaction (sample_transaction\<lparr>gasLimit := 180000\<rparr>),
       EvSendTransaction ''high'', EvWait ''0xb2''])
   \<and> precedes is_estimate is_sign_or_send
        (snd (executeWalletRebalancing sample_lib sample_provider sample_wallet sample_rebalancing))
   \<and> fst (rebalancing_transaction sample_lib sample_provider sample_wallet sample_spender ''0x12''
            JUndefined) = Inr sample_transaction
   \<and> gasLimit sample_transaction = 120000
   \<and> fst (swap_transaction sample_lib sample_provider sample_wallet sample_quote) =
       Inr \<lparr>to = sample_spender, data = ''0x12'', value = 0, gasLimit = 500000, gasPrice = 5,
            nonce = 7, chainId = 1\<rparr>
   \<and> filter is_estimate
        (snd (swapWithThirtyOneThird sample_lib sample_provider sample_wallet sample_quote)) = []"
proof -
  have build: "rebalancing_transaction sample_lib sample_provider sample_wallet sample_spender
      ''0x12'' JUndefined =
      (Inr sample_transaction,
       [EvGetGasPrice, EvEstimateGas sample_request,
        EvGetTransactionCount (address sample_wallet), EvGetNetwork])"
    by (simp add: rebalancing_transaction_def estimateGasLimit_cases and_then_def await_def
          lift_def resolve_def sample_provider_def sample_transaction_def sample_request_def)
  have first: "signSendWait sample_provider sample_wallet sample_transaction =
      (Inl (Error ''exceeds block gas limit''),
       [EvSignTransaction sample_transaction, EvSendTransaction ''low''])"
    by (simp add: signSendWait_cases sample_provider_def sample_wallet_def sample_transaction_def)
  have raised: "BigNumber_div (BigNumber_mul (gasLimit sample_transaction) 150) 100 = 180000"
    by (simp add: sample_transaction_def BigNumber_mul_def BigNumber_div_nonneg)
  have second: "signSendWait sample_provider sample_wallet (sample_transaction\<lparr>gasLimit := 180000\<rparr>) =
      (Inr \<lparr>blockNumber = 19000000, gasUsed = 21000\<rparr>,
       [EvSignTransaction (sample_transaction\<lparr>gasLimit := 180000\<rparr>),
        EvSendTransaction ''high'', EvWait ''0xb2''])"
    by (simp add: signSendWait_cases sample_provider_def sample_wallet_def)
  have submit: "submit_rebalancing sample_provider sample_wallet sample_transaction =
      (Inr \<lparr>blockNumber = 19000000, gasUsed = 21000\<rparr>,
       [EvSignTransaction sample_transaction, EvSendTransaction ''low'',
        EvSignTransaction (sample_transaction\<lparr>gasLimit := 180000\<rparr>),
        EvSendTransaction ''high'', EvWait ''0xb2''])"
    by (simp add: submit_rebalancing_def try_catch_def first sample_messages raised second)
  have run: "executeWalletRebalancing sample_lib sample_provider sample_wallet sample_rebalancing =
     (Inr (Some \<lparr>blockNumber = 19000000, gasUsed = 21000\<rparr>),
      [EvAllowance GRT (address sample_wallet) sample_spender, EvGetGasPrice,
       EvApprove GRT sample_spender MaxUint256 100000 5, EvWait ''0xa1'',
       EvGetGasPrice, EvEstimateGas sample_request,
       EvGetTransactionCount (address sample_wallet), EvGetNetwork,
       EvSignTransaction sample_transaction, EvSendTransaction ''low'',
       EvSignTransaction (sample_transaction\<lparr>gasLimit := 180000\<rparr>),
       EvSendTransaction ''high'', EvWait ''0xb2''])"
    by (simp add: executeWalletRebalancing_def sample_rebalancing_def sample_nonempty
          sample_reconciliation build submit and_then_def resolve_def)
  have swap: "fst (swap_transaction sample_lib sample_provider sample_wallet sample_quote) =
       Inr \<lparr>to = sample_spender, data = ''0x12'', value = 0, gasLimit = 500000, gasPrice = 5,
            nonce = 7, chainId = 1\<rparr>"
    by (simp add: swap_transaction_def and_then_def await_def lift_def resolve_def
          sample_quote_def sample_provider_def sample_lib_def digit_def)
  have limit: "gasLimit sample_transaction = 120000"
    by (simp add: sample_transaction_def)
  show ?thesis
    using estimate_first_only_in_rebalancing
            [of sample_lib sample_provider sample_wallet sample_rebalancing sample_spender
               "''0x12''" JUndefined sample_quote]
    by (simp add: run build swap limit)
qed

text \<open>
  C4. For every complete allowance requirement, one whose token address and spender
  are present and not empty and whose needed amount is truthy (so not the number 0)
  and converts to an amount, a current allowance of at least that amount makes its
  check a single read that sends no approval and answers \<open>false\<close>; a reconciliation
  whose entries are all such sends no approval and completes without an error. The
  check itself, called with any amount, does the same.
\<close>

theorem satisfied_requirement_is_noop:
  "(\<forall>currentAllowance.
      allowance p tokenAddress (address w) spenderAddress = Inr currentAllowance
      \<and> amount \<le> int currentAllowance \<longrightarrow>
      checkAndSetAllowance p w tokenAddress spenderAddress amount =
        (Inr False, [EvAllowance tokenAddress (address w) spenderAddress]))
   \<and> (\<forall>t tok sp needed currentAllowance.
        token a = Some t \<and> token_address t = Some tok \<and> tok \<noteq> []
        \<and> allowanceTarget a = Some sp \<and> sp \<noteq> []
        \<and> truthy (neededAllowance a)
        \<and> BigNumber_from lib (neededAllowance a) = Inr needed
        \<and> allowance p tok (address w) sp = Inr currentAllowance
        \<and> needed \<le> int currentAllowance \<longrightarrow>
        already_satisfied lib p w a
        \<and> allowance_callback lib p w a = (Inr False, [EvAllowance tok (address w) sp]))
   \<and> ((\<forall>r \<in> set ras. already_satisfied lib p w r) \<longrightarrow>
        fst (handleRequiredAllowances lib p w (Some ras)) = Inr JUndefined
        \<and> filter is_approval (snd (handleRequiredAllowances lib p w (Some ras))) = [])"
proof -
  have check: "checkAndSetAllowance p w tokenAddress spenderAddress amount =
        (Inr False, [EvAllowance tokenAddress (address w) spenderAddress])"
    if "allowance p tokenAddress (address w) spenderAddress = Inr currentAllowance"
      and "amount \<le> int currentAllowance" for currentAllowance
    using that by (simp add: checkAndSetAllowance_cases)
  have entry: "already_satisfied lib p w a
        \<and> allowance_callback lib p w a = (Inr False, [EvAllowance tok (address w) sp])"
    if "token a = Some t" "token_address t = Some tok" "tok \<noteq> []"
      "allowanceTarget a = Some sp" "sp \<noteq> []" "truthy (neededAllowance a)"
      "BigNumber_from lib (neededAllowance a) = Inr needed"
      "allowance p tok (address w) sp = Inr currentAllowance" "needed \<le> int currentAllowance"
    for t tok sp needed currentAllowance
  proof -
    from that have "allowance_arguments lib a = Inr (tok, sp, needed)"
      by (simp add: allowance_arguments_def)
    with that show ?thesis
      by (simp add: already_satisfied_def allowance_callback_def checkAndSetAllowance_cases)
  qed
  have whole: "fst (handleRequiredAllowances lib p w (Some ras)) = Inr JUndefined
        \<and> filter is_approval (snd (handleRequiredAllowances lib p w (Some ras))) = []"
    if all: "\<forall>r \<in> set ras. already_satisfied lib p w r"
  proof -
    have "\<exists>tok sp needed cur.
            allowance_arguments lib r = Inr (tok, sp, needed)
            \<and> allowance p tok (address w) sp = Inr cur \<and> needed \<le> int cur"
      if "r \<in> set ras" for r
    proof -
      from all that have sat: "already_satisfied lib p w r" by blast
      then obtain tok sp needed where args: "allowance_arguments lib r = Inr (tok, sp, needed)"
        by (cases "allowance_arguments lib r") (auto simp add: already_satisfied_def)
      with sat obtain cur where "allowance p tok (address w) sp = Inr cur" "needed \<le> int cur"
        by (cases "allowance p tok (address w) sp") (auto simp add: already_satisfied_def)
      with args show ?thesis by blast
    qed
    then have "\<forall>r \<in> set ras. \<exists>tok sp needed cur.
            allowance_arguments lib r = Inr (tok, sp, needed)
            \<and> allowance p tok (address w) sp = Inr cur \<and> needed \<le> int cur"
      by blast
    then show ?thesis
      using handleRequiredAllowances_all_sufficient by blast
  qed
  from check entry whole show ?thesis by blast
qed

text \<open>
  An entry whose needed amount is the number 0, on a node reporting an allowance of
  \<open>10 ^ 30\<close> for it: the allowance is at least the amount, yet the reconciliation
  ends in an error before any read.
\<close>

theorem satisfied_requirement_is_noop_counterexample:
  "neededAllowance zero_entry = JNum 0
   \<and> BigNumber_from sample_lib (JNum 0) = Inr 0
   \<and> allowance sample_provider fromTokenAddress (address sample_wallet) sample_spender =
       Inr (10 ^ 30)
   \<and> (0 :: int) \<le> int (10 ^ 30)
   \<and> handleRequiredAllowances sample_lib sample_provider sample_wallet (Some [zero_entry]) =
       (Inl (Error ''Incomplete allowance data''), [])"
proof -
  have args: "allowance_arguments sample_lib zero_entry = Inl (Error ''Incomplete allowance data'')"
    by (simp add: allowance_arguments_def zero_entry_def approved_entry_def)
  have run: "handleRequiredAllowances sample_lib sample_provider sample_wallet (Some [zero_entry]) =
       (Inl (Error ''Incomplete allowance data''), [])"
    by (simp add: handleRequiredAllowances_def Let_def args allowance_callback_def reject_def)
  have needed: "neededAllowance zero_entry = JNum 0"
    by (simp add: zero_entry_def)
  show ?thesis
    by (simp add: run needed sample_usdt)
qed

theorem satisfied_requirement_is_noop_witness:
  "allowance sample_provider fromTokenAddress (address sample_wallet) sample_spender =
     Inr (10 ^ 30)
   \<and> (1000000 :: int) \<le> int (10 ^ 30)
   \<and> checkAndSetAllowance sample_provider sample_wallet fromTokenAddress sample_spender 1000000 =
       (Inr False, [EvAllowance fromTokenAddress (address sample_wallet) sample_spender])
   \<and> truthy (neededAllowance approved_entry)
   \<and> BigNumber_from sample_lib (neededAllowance approved_entry) = Inr 1000000
   \<and> already_satisfied sample_lib sample_provider sample_wallet approved_entry
   \<and> allowance_callback sample_lib sample_provider sample_wallet approved_entry =
       (Inr False, [EvAllowance fromTokenAddress (address sample_wallet) sample_spender])
   \<and> fst (handleRequiredAllowances sample_lib sample_provider sample_wallet
            (Some [approved_entry, approved_entry])) = Inr JUndefined
   \<and> filter is_approval
        (snd (handleRequiredAllowances sample_lib sample_provider sample_wallet
                (Some [approved_entry, approved_entry]))) = []"
proof -
  have fields: "token approved_entry =
        Some \<lparr>token_address = Some fromTokenAddress, symbol = Some ''USDT''\<rparr>"
    "token_address \<lparr>token_address = Some fromTokenAddress, symbol = Some ''USDT''\<rparr> =
        Some fromTokenAddress"
    "allowanceTarget approved_entry = Some sample_spender"
    "neededAllowance approved_entry = JStr ''1000000''"
    by (simp_all add: approved_entry_def)
  have h1: "allowance sample_provider fromTokenAddress (address sample_wallet) sample_spender =
     Inr (10 ^ 30)"
    by (rule sample_usdt)
  have h2: "(1000000 :: int) \<le> int (10 ^ 30)"
    by simp
  have h3: "truthy (neededAllowance approved_entry)"
    by (simp add: fields)
  have h4: "BigNumber_from sample_lib (neededAllowance approved_entry) = Inr 1000000"
    by (simp add: fields sample_usdt)
  note inst = satisfied_requirement_is_noop
              [of sample_provider fromTokenAddress sample_wallet sample_spender 1000000
                 approved_entry sample_lib "[approved_entry, approved_entry]"]
  from inst h1 h2
  have check: "checkAndSetAllowance sample_provider sample_wallet fromTokenAddress sample_spender
      1000000 = (Inr False, [EvAllowance fromTokenAddress (address sample_wallet) sample_spender])"
    by blast
  from inst fields h1 h2 h3 h4 sample_usdt(1) sample_nonempty(2)
  have entry: "already_satisfied sample_lib sample_provider sample_wallet approved_entry
      \<and> allowance_callback sample_lib sample_provider sample_wallet approved_entry =
         (Inr False, [EvAllowance fromTokenAddress (address sample_wallet) sample_spender])"
    by blast
  then have "\<forall>r \<in> set [approved_entry, approved_entry].
      already_satisfied sample_lib sample_provider sample_wallet r"
    by simp
  with inst
  have whole: "fst (handleRequiredAllowances sample_lib sample_provider sample_wallet
            (Some [approved_entry, approved_entry])) = Inr JUndefined
      \<and> filter is_approval
        (snd (handleRequiredAllowances sample_lib sample_provider sample_wallet
                (Some [approved_entry, approved_entry]))) = []"
    by blast
  from h1 h2 h3 h4 check entry whole show ?thesis by blast
qed

text \<open>
  C5. When the allowance read returns less than the amount needed and the gas price
  read succeeds, exactly one approval is sent, for \<open>MaxUint256 = 2 ^ 256 - 1\<close> with the
  gas limit 100000. Whatever the node answers, at most one approval is sent and every
  approval sent is for \<open>2 ^ 256 - 1\<close>, never for the amount needed.
\<close>

theorem checkAndSetAllowance_insufficient:
  assumes "allowance p tokenAddress (address w) spenderAddress = Inr currentAllowance"
    and "int currentAllowance < amount"
  shows "(\<forall>price. getGasPrice p = Inr price \<longrightarrow>
            filter is_approval (snd (checkAndSetAllowance p w tokenAddress spenderAddress amount)) =
              [EvApprove tokenAddress spenderAddress MaxUint256 100000 (int price)])
         \<and> length (filter is_approval
                     (snd (checkAndSetAllowance p w tokenAddress spenderAddress amount))) \<le> 1
         \<and> (\<forall>tok sp a l g.
               EvApprove tok sp a l g
                 \<in> set (snd (checkAndSetAllowance p w tokenAddress spenderAddress amount)) \<longrightarrow>
               a = 2 ^ 256 - 1)"
  using assms by (auto simp add: checkAndSetAllowance_cases MaxUint256_def split: sum.splits)

theorem checkAndSetAllowance_insufficient_witness:
  "allowance sample_provider GRT (address sample_wallet) sample_spender = Inr 0
   \<and> int 0 < 2000000000000000000
   \<and> getGasPrice sample_provider = Inr 5
   \<and> filter is_approval
        (snd (checkAndSetAllowance sample_provider sample_wallet GRT sample_spender
                2000000000000000000)) =
       [EvApprove GRT sample_spender MaxUint256 100000 5]
   \<and> MaxUint256 = 2 ^ 256 - 1"
proof -
  have h1: "allowance sample_provider GRT (address sample_wallet) sample_spender = Inr 0"
    by (simp add: sample_provider_def)
  have h2: "int 0 < 2000000000000000000"
    by simp
  have h3: "getGasPrice sample_provider = Inr 5"
    by (simp add: sample_provider_def)
  show ?thesis
    using h1 h2 h3 checkAndSetAllowance_insufficient [OF h1 h2]
    by (simp add: MaxUint256_def)
qed

text \<open>
  C6. When any entry of the sequence lacks its token, its token address, its spender
  address or its needed amount, the reconciliation ends in an error, whatever the
  other entries are and whatever the node answers: it never reports success.
\<close>

theorem missing_field_fails:
  assumes "a \<in> set ras"
    and "token a = None \<or> (\<exists>tok. token a = Some tok \<and> token_address tok = None)
         \<or> allowanceTarget a = None
         \<or> neededAllowance a = JUndefined \<or> neededAllowance a = JNull"
  shows "\<exists>e. fst (handleRequiredAllowances lib p w (Some ras)) = Inl e"
proof -
  from assms(2) have "\<exists>e. allowance_arguments lib a = Inl e"
    by (auto simp add: allowance_arguments_def split: option.splits)
  with assms(1) show ?thesis
    using handleRequiredAllowances_rejected by blast
qed

theorem missing_field_fails_witness:
  "sample_entry\<lparr>allowanceTarget := None\<rparr> \<in> set [sample_entry, sample_entry\<lparr>allowanceTarget := None\<rparr>]
   \<and> allowanceTarget (sample_entry\<lparr>allowanceTarget := None\<rparr>) = None
   \<and> fst (handleRequiredAllowances sample_lib sample_provider sample_wallet
            (Some [sample_entry, sample_entry\<lparr>allowanceTarget := None\<rparr>])) =
       Inl (Error ''Incomplete allowance data'')"
proof -
  have h1: "sample_entry\<lparr>allowanceTarget := None\<rparr>
              \<in> set [sample_entry, sample_entry\<lparr>allowanceTarget := None\<rparr>]"
    by simp
  have h2: "token (sample_entry\<lparr>allowanceTarget := None\<rparr>) = None
         \<or> (\<exists>tok. token (sample_entry\<lparr>allowanceTarget := None\<rparr>) = Some tok
                  \<and> token_address tok = None)
         \<or> allowanceTarget (sample_entry\<lparr>allowanceTarget := None\<rparr>) = None
         \<or> neededAllowance (sample_entry\<lparr>allowanceTarget := None\<rparr>) = JUndefined
         \<or> neededAllowance (sample_entry\<lparr>allowanceTarget := None\<rparr>) = JNull"
    by simp
  have args: "allowance_arguments sample_lib sample_entry =
                Inr (GRT, sample_spender, 2000000000000000000)"
    "allowance_arguments sample_lib (sample_entry\<lparr>allowanceTarget := None\<rparr>) =
       Inl (Error ''Incomplete allowance data'')"
    by (simp_all add: allowance_arguments_def sample_entry_def sample_amount sample_nonempty)
  have "fst (handleRequiredAllowances sample_lib sample_provider sample_wallet
            (Some [sample_entry, sample_entry\<lparr>allowanceTarget := None\<rparr>])) =
       Inl (Error ''Incomplete allowance data'')"
    by (simp add: handleRequiredAllowances_def Let_def args)
  then show ?thesis
    using h1 missing_field_fails [OF h1 h2, of sample_lib sample_provider sample_wallet]
    by simp
qed

text \<open>
  C7. When the answer has no \<open>txHandler\<close> or no \<open>txData\<close> (absent or empty), the batch
  flow stops before any call to the node or the wallet: no allowance read, no approval,
  no estimate, nothing signed. It stops by returning no receipt; no error is raised.
\<close>

theorem no_transaction_data_stops:
  assumes "\<not> truthy_str (txHandler rebalancingData) \<or> \<not> truthy_str (txData rebalancingData)"
  shows "executeWalletRebalancing lib p w rebalancingData = (Inr None, [])"
  using assms by (auto simp add: executeWalletRebalancing_def resolve_def)

text \<open>The sample answer without its \<open>txHandler\<close> ends the flow without an error.\<close>

theorem no_transaction_data_stops_counterexample:
  "fst (executeWalletRebalancing sample_lib sample_provider sample_wallet
          (sample_rebalancing\<lparr>txHandler := None\<rparr>)) = Inr None
   \<and> (\<forall>e. fst (executeWalletRebalancing sample_lib sample_provider sample_wallet
                 (sample_rebalancing\<lparr>txHandler := None\<rparr>)) \<noteq> Inl e)"
  by (simp add: executeWalletRebalancing_def resolve_def)

theorem no_transaction_data_stops_witness:
  "truthy_str (txData (sample_rebalancing\<lparr>txData := Some ''''\<rparr>)) = False
   \<and> executeWalletRebalancing sample_lib sample_provider sample_wallet
        (sample_rebalancing\<lparr>txData := Some ''''\<rparr>) = (Inr None, [])"
proof -
  have h: "\<not> truthy_str (txHandler (sample_rebalancing\<lparr>txData := Some ''''\<rparr>))
           \<or> \<not> truthy_str (txData (sample_rebalancing\<lparr>txData := Some ''''\<rparr>))"
    by simp
  show ?thesis
    using no_transaction_data_stops [OF h, of sample_lib sample_provider sample_wallet]
    by simp
qed

text \<open>
  C8. In the single swap flow the gas price of the transaction is the quote's
  \<open>gasPrice\<close>, converted by \<open>BigNumber.from\<close>, when that field is truthy (present, not
  \<open>0\<close>, not empty), and the node's current gas price otherwise. In the batch flow,
  whose answer carries no gas price, it is always the node's current gas price.
\<close>

theorem gas_price_of_transaction:
  "(\<forall>transaction.
      fst (swap_transaction lib p w q) = Inr transaction \<longrightarrow>
      (if truthy (quote_gasPrice q)
       then BigNumber_from lib (quote_gasPrice q) = Inr (gasPrice transaction)
       else \<exists>price. getGasPrice p = Inr price \<and> gasPrice transaction = int price))
   \<and> (\<forall>transaction.
      fst (rebalancing_transaction lib p w handler calldata amount) = Inr transaction \<longrightarrow>
      (\<exists>price. getGasPrice p = Inr price \<and> gasPrice transaction = int price))"
  by (auto simp add: swap_transaction_def rebalancing_transaction_def and_then_def lift_def
        await_def resolve_def estimateGasLimit_cases split: sum.splits if_splits)

text \<open>
  A quote whose gas price is the number 0, on a node whose gas price is 5: the
  transaction carries 5, not the 0 of the quote.
\<close>

theorem gas_price_of_transaction_counterexample:
  "quote_gasPrice sample_quote = JNum 0
   \<and> BigNumber_from sample_lib (JNum 0) = Inr 0
   \<and> getGasPrice sample_provider = Inr 5
   \<and> fst (swap_transaction sample_lib sample_provider sample_wallet sample_quote) =
       Inr \<lparr>to = sample_spender, data = ''0x12'', value = 0, gasLimit = 500000, gasPrice = 5,
            nonce = 7, chainId = 1\<rparr>"
  by (simp add: swap_transaction_def and_then_def await_def lift_def resolve_def
        sample_quote_def sample_provider_def sample_lib_def digit_def)

theorem gas_price_of_transaction_witness:
  "truthy (quote_gasPrice (sample_quote\<lparr>quote_gasPrice := JStr ''9''\<rparr>))
   \<and> BigNumber_from sample_lib (JStr ''9'') = Inr 9
   \<and> fst (swap_transaction sample_lib sample_provider sample_wallet
            (sample_quote\<lparr>quote_gasPrice := JStr ''9''\<rparr>)) =
       Inr \<lparr>to = sample_spender, data = ''0x12'', value = 0, gasLimit = 500000, gasPrice = 9,
            nonce = 7, chainId = 1\<rparr>
   \<and> fst (rebalancing_transaction sample_lib sample_provider sample_wallet sample_spender ''0x12''
            JUndefined) = Inr sample_transaction
   \<and> getGasPrice sample_provider = Inr 5
   \<and> gasPrice sample_transaction = 5"
proof -
  have swap: "fst (swap_transaction sample_lib sample_provider sample_wallet
            (sample_quote\<lparr>quote_gasPrice := JStr ''9''\<rparr>)) =
       Inr \<lparr>to = sample_spender, data = ''0x12'', value = 0, gasLimit = 500000, gasPrice = 9,
            nonce = 7, chainId = 1\<rparr>"
    by (simp add: swap_transaction_def and_then_def await_def lift_def resolve_def
          sample_quote_def sample_provider_def sample_lib_def digit_def)
  have build: "fst (rebalancing_transaction sample_lib sample_provider sample_wallet sample_spender
            ''0x12'' JUndefined) = Inr sample_transaction"
    by (simp add: rebalancing_transaction_def estimateGasLimit_cases and_then_def await_def
          lift_def resolve_def sample_provider_def sample_transaction_def)
  have facts: "BigNumber_from sample_lib (JStr ''9'') = Inr 9"
    "getGasPrice sample_provider = Inr 5" "gasPrice sample_transaction = 5"
    by (simp_all add: sample_lib_def digit_def sample_provider_def sample_transaction_def)
  show ?thesis
    using gas_price_of_transaction
            [of sample_lib sample_provider sample_wallet
               "sample_quote\<lparr>quote_gasPrice := JStr ''9''\<rparr>" sample_spender "''0x12''" JUndefined]
    by (simp add: swap build facts)
qed

text \<open>
  C9. A reconciliation that completes returns nothing (\<open>undefined\<close>), not a count. The
  approvals it sent are as many as its under-approved entries, and each check returns
  \<open>true\<close> when it sent its approval and \<open>false\<close> when it sent none; the reconciliation
  drops those answers.
\<close>

theorem handleRequiredAllowances_returns_undefined:
  "(\<forall>v. fst (handleRequiredAllowances lib p w required) = Inr v \<longrightarrow>
        v = JUndefined
        \<and> length (filter is_approval (snd (handleRequiredAllowances lib p w required))) =
            length (filter (under_approved lib p w)
                      (case required of None \<Rightarrow> [] | Some ras \<Rightarrow> ras)))
   \<and> (\<forall>b. fst (checkAndSetAllowance p w tokenAddress spenderAddress amount) = Inr b \<longrightarrow>
        length (filter is_approval
                  (snd (checkAndSetAllowance p w tokenAddress spenderAddress amount))) =
          (if b then 1 else 0))"
proof -
  have "v = JUndefined
        \<and> length (filter is_approval (snd (handleRequiredAllowances lib p w required))) =
            length (filter (under_approved lib p w)
                      (case required of None \<Rightarrow> [] | Some ras \<Rightarrow> ras))"
    if ok: "fst (handleRequiredAllowances lib p w required) = Inr v" for v
  proof (cases required)
    case None
    with ok show ?thesis by (simp add: handleRequiredAllowances_def resolve_def)
  next
    case (Some ras)
    with ok have s: "fst (handleRequiredAllowances lib p w (Some ras)) = Inr v" by simp
    from handleRequiredAllowances_success [OF s] approvals_concat [of ras lib p w] Some
    show ?thesis by (simp add: handleRequiredAllowances_trace)
  qed
  then show ?thesis
    using checkAndSetAllowance_approvals by blast
qed

text \<open>
  The sample reconciliation sends one approval and returns \<open>undefined\<close>, not the
  number 1.
\<close>

theorem handleRequiredAllowances_returns_undefined_counterexample:
  "length (filter is_approval
             (snd (handleRequiredAllowances sample_lib sample_provider sample_wallet
                     (Some [sample_entry])))) = 1
   \<and> fst (handleRequiredAllowances sample_lib sample_provider sample_wallet
            (Some [sample_entry])) = Inr JUndefined
   \<and> fst (handleRequiredAllowances sample_lib sample_provider sample_wallet
            (Some [sample_entry])) \<noteq> Inr (JNum 1)"
  by (simp add: sample_reconciliation)

theorem handleRequiredAllowances_returns_undefined_witness:
  "fst (handleRequiredAllowances sample_lib sample_provider sample_wallet
          (Some [sample_entry])) = Inr JUndefined
   \<and> length (filter (under_approved sample_lib sample_provider sample_wallet) [sample_entry]) = 1
   \<and> length (filter is_approval
               (snd (handleRequiredAllowances sample_lib sample_provider sample_wallet
                       (Some [sample_entry])))) = 1
   \<and> fst (checkAndSetAllowance sample_provider sample_wallet GRT sample_spender
            2000000000000000000) = Inr True
   \<and> length (filter is_approval
               (snd (checkAndSetAllowance sample_provider sample_wallet GRT sample_spender
                       2000000000000000000))) = 1"
proof -
  have check: "fst (checkAndSetAllowance sample_provider sample_wallet GRT sample_spender
            2000000000000000000) = Inr True"
    by (simp add: checkAndSetAllowance_cases sample_provider_def)
  have under: "under_approved sample_lib sample_provider sample_wallet sample_entry"
    by (simp add: under_approved_def allowance_arguments_def sample_entry_def sample_amount
          sample_nonempty sample_provider_def)
  show ?thesis
    using handleRequiredAllowances_returns_undefined
            [of sample_lib sample_provider sample_wallet "Some [sample_entry]" GRT sample_spender
               2000000000000000000]
    by (auto simp add: sample_reconciliation check under)
qed

text \<open>
  C10. An entry whose needed amount is the number \<open>0\<close> fails the completeness test: the
  reconciliation ends in an error, which for an entry with a token is
  \<open>Incomplete allowance data\<close>, although a check for the amount 0 would find any
  allowance sufficient.
\<close>

theorem zero_needed_fails:
  assumes "a \<in> set ras" and "neededAllowance a = JNum 0"
  shows "(\<exists>e. fst (handleRequiredAllowances lib p w (Some ras)) = Inl e)
         \<and> (token a \<noteq> None \<longrightarrow>
              allowance_arguments lib a = Inl (Error ''Incomplete allowance data''))
         \<and> (\<forall>tokenAddress spenderAddress currentAllowance.
               allowance p tokenAddress (address w) spenderAddress = Inr currentAllowance \<longrightarrow>
               fst (checkAndSetAllowance p w tokenAddress spenderAddress 0) = Inr False)"
proof -
  from assms(2) have "\<exists>e. allowance_arguments lib a = Inl e"
    by (auto simp add: allowance_arguments_def split: option.splits)
  with assms(1) have "\<exists>e. fst (handleRequiredAllowances lib p w (Some ras)) = Inl e"
    using handleRequiredAllowances_rejected by blast
  moreover from assms(2)
  have "token a \<noteq> None \<longrightarrow> allowance_arguments lib a = Inl (Error ''Incomplete allowance data'')"
    by (auto simp add: allowance_arguments_def split: option.splits)
  ultimately show ?thesis
    by (simp add: checkAndSetAllowance_cases)
qed

theorem zero_needed_fails_witness:
  "sample_entry\<lparr>neededAllowance := JNum 0\<rparr> \<in> set [sample_entry\<lparr>neededAllowance := JNum 0\<rparr>]
   \<and> neededAllowance (sample_entry\<lparr>neededAllowance := JNum 0\<rparr>) = JNum 0
   \<and> handleRequiredAllowances sample_lib sample_provider sample_wallet
        (Some [sample_entry\<lparr>neededAllowance := JNum 0\<rparr>]) =
       (Inl (Error ''Incomplete allowance data''), [])
   \<and> allowance sample_provider GRT (address sample_wallet) sample_spender = Inr 0
   \<and> fst (checkAndSetAllowance sample_provider sample_wallet GRT sample_spender 0) = Inr False"
proof -
  have h1: "sample_entry\<lparr>neededAllowance := JNum 0\<rparr>
              \<in> set [sample_entry\<lparr>neededAllowance := JNum 0\<rparr>]"
    by simp
  have h2: "neededAllowance (sample_entry\<lparr>neededAllowance := JNum 0\<rparr>) = JNum 0"
    by simp
  have args: "allowance_arguments sample_lib (sample_entry\<lparr>neededAllowance := JNum 0\<rparr>) =
       Inl (Error ''Incomplete allowance data'')"
    by (simp add: allowance_arguments_def sample_entry_def)
  have run: "handleRequiredAllowances sample_lib sample_provider sample_wallet
        (Some [sample_entry\<lparr>neededAllowance := JNum 0\<rparr>]) =
       (Inl (Error ''Incomplete allowance data''), [])"
    by (simp add: handleRequiredAllowances_def Let_def args allowance_callback_def reject_def)
  have read: "allowance sample_provider GRT (address sample_wallet) sample_spender = Inr 0"
    by (simp add: sample_provider_def)
  show ?thesis
    using h1 h2 read zero_needed_fails [OF h1 h2, of sample_lib sample_provider sample_wallet]
    by (simp add: run)
qed

end
